theory Spec2Isabelle
  imports Main "HOL-Library.Word"
begin

section \<open>Time, durations and errors\<close>

text \<open>
  A \<open>time.Time\<close> is an instant, counted in nanoseconds from Go's zero Time (so the zero
  value of a Time field is \<open>0\<close>); \<open>UTC()\<close> does not change the instant. The range of a
  Go Time (far beyond any expiry) is not modelled. A \<open>time.Duration\<close> is an \<open>int64\<close> count
  of nanoseconds: multiplication wraps around, \<open>Sub\<close> saturates.
\<close>

type_synonym Time = int
type_synonym Duration = "64 word"

definition Second :: Duration where
  "Second = 1000000000"

definition Minute :: Duration where
  "Minute = 60 * Second"

definition maxDuration :: Duration where
  "maxDuration = 9223372036854775807"

definition minDuration :: Duration where
  "minDuration = - 9223372036854775808"

definition Time_After :: "Time \<Rightarrow> Time \<Rightarrow> bool" where
  "Time_After t u \<longleftrightarrow> u < t"

definition Time_Before :: "Time \<Rightarrow> Time \<Rightarrow> bool" where
  "Time_Before t u \<longleftrightarrow> t < u"

definition Time_Add :: "Time \<Rightarrow> Duration \<Rightarrow> Time" where
  "Time_Add t d = t + sint d"

definition Time_Sub :: "Time \<Rightarrow> Time \<Rightarrow> Duration" where
  "Time_Sub t u =
     (if t - u < - 9223372036854775808 then minDuration
      else if 9223372036854775807 < t - u then maxDuration
      else word_of_int (t - u))"

definition Until :: "Time \<Rightarrow> Time \<Rightarrow> Duration" where
  \<comment> \<open>\<open>time.Until(t)\<close> read at the instant \<open>now\<close>\<close>
  "Until now t = Time_Sub t now"

text \<open>
  The error values of the storage package (its \<open>errors.go\<close>), of the oauth package, gorm's
  record-not-found, an error reported by the database driver or by the Redis client, and
  \<open>fmt.Errorf\<close> with or without a wrapped cause. \<open>NilPointerPanic\<close> stands for the run-time panic of a nil
  dereference.
\<close>

datatype error =
    ErrClientNotFound
  | ErrUserNotFound
  | ErrTokenNotFound
  | ErrTokenExpired
  | ErrCodeNotFound
  | ErrCodeExpired
  | ErrScopeNotFound
  | ErrRoleNotFound
  | ErrInvalidCredentials
  | ErrAccessTokenNotFound
  | ErrAccessTokenExpired
  | ErrRecordNotFound
  | DriverError string
  | RedisError string
  | Errorf string "error option"
  | NilPointerPanic

section \<open>Entity model\<close>

text \<open>
  Modelled from the spec: the \<open>models\<close> package (the gorm structs) is not among the
  sources. The records carry the attributes of the spec's data model under the field names
  the storage code reads (\<open>client.Key\<close>, \<open>user.Username\<close>, \<open>user.ID\<close>,
  \<open>user.Password.Valid\<close>, \<open>token.Token\<close>, \<open>token.ExpiresAt\<close>,
  \<open>accessToken.ClientID.String\<close>, \<open>accessToken.UserID.Valid\<close>, \<open>token.Client.Key\<close>,
  \<open>code.Code\<close>). A \<open>sql.NullString\<close> read from a column is \<open>None\<close> for NULL.
\<close>

type_synonym NullString = "string option"

definition NullString_Valid :: "NullString \<Rightarrow> bool" where
  "NullString_Valid n \<longleftrightarrow> n \<noteq> None"

definition NullString_String :: "NullString \<Rightarrow> string" where
  "NullString_String n = (case n of None \<Rightarrow> [] | Some s \<Rightarrow> s)"

record OauthClient =
  Key :: string
  Secret :: string
  RedirectURI :: NullString
  client_CreatedAt :: Time

record OauthUser =
  ID :: string
  Username :: string
  Password :: NullString
  user_CreatedAt :: Time

record OauthScope =
  Scope :: string
  IsDefault :: bool

record OauthAccessToken =
  at_Token :: string
  at_ClientID :: NullString
  at_UserID :: NullString
  at_Client :: "OauthClient option"
  at_User :: "OauthUser option"
  at_Scope :: string
  at_ExpiresAt :: Time
  at_CreatedAt :: Time

record OauthRefreshToken =
  rt_Token :: string
  rt_ClientID :: NullString
  rt_UserID :: NullString
  rt_Scope :: string
  rt_ExpiresAt :: Time
  rt_CreatedAt :: Time

record OauthAuthorizationCode =
  ac_Code :: string
  ac_ClientID :: NullString
  ac_UserID :: NullString
  ac_RedirectURI :: NullString
  ac_Scope :: string
  ac_ExpiresAt :: Time
  ac_CreatedAt :: Time

text \<open>The zero values a Go \<open>var x T\<close> or \<open>new(T)\<close> starts from.\<close>

definition zero_OauthClient :: OauthClient where
  "zero_OauthClient = \<lparr>Key = [], Secret = [], RedirectURI = None, client_CreatedAt = 0\<rparr>"

definition zero_OauthUser :: OauthUser where
  "zero_OauthUser = \<lparr>ID = [], Username = [], Password = None, user_CreatedAt = 0\<rparr>"

definition zero_OauthAccessToken :: OauthAccessToken where
  "zero_OauthAccessToken =
     \<lparr>at_Token = [], at_ClientID = None, at_UserID = None, at_Client = None, at_User = None,
      at_Scope = [], at_ExpiresAt = 0, at_CreatedAt = 0\<rparr>"

section \<open>The in-memory backend (storage/memory.go)\<close>

text \<open>
  The struct \<open>MemoryStorage\<close>: one Go map per entity. The operations below only read,
  delete from and range over the maps, for which a nil map (after \<open>Close\<close>) behaves as the
  empty one. Every operation runs under the store-wide lock, so it is one atomic step on
  the state. A Go call returning \<open>(*T, error)\<close> is a pair of options.
\<close>

record MemoryStorage =
  clients :: "string \<rightharpoonup> OauthClient"
  users :: "string \<rightharpoonup> OauthUser"
  usersByID :: "string \<rightharpoonup> OauthUser"
  accessTokens :: "string \<rightharpoonup> OauthAccessToken"
  refreshTokens :: "string \<rightharpoonup> OauthRefreshToken"
  authCodes :: "string \<rightharpoonup> OauthAuthorizationCode"
  scopes :: "string \<rightharpoonup> OauthScope"

definition NewMemoryStorage :: MemoryStorage where
  "NewMemoryStorage =
     \<lparr>clients = Map.empty, users = Map.empty, usersByID = Map.empty,
      accessTokens = Map.empty, refreshTokens = Map.empty, authCodes = Map.empty,
      scopes = Map.empty\<rparr>"

definition MemoryStorage_GetClient ::
  "MemoryStorage \<Rightarrow> string \<Rightarrow> OauthClient option \<times> error option" where
  "MemoryStorage_GetClient m clientID =
     (case clients m clientID of
        Some client \<Rightarrow> (Some client, None)
      | None \<Rightarrow> (None, Some ErrClientNotFound))"

definition MemoryStorage_DeleteClient ::
  "MemoryStorage \<Rightarrow> string \<Rightarrow> MemoryStorage \<times> error option" where
  "MemoryStorage_DeleteClient m clientID =
     (m\<lparr>clients := (clients m)(clientID := None)\<rparr>, None)"

definition MemoryStorage_GetUser ::
  "MemoryStorage \<Rightarrow> string \<Rightarrow> OauthUser option \<times> error option" where
  "MemoryStorage_GetUser m username =
     (case users m username of
        Some user \<Rightarrow> (Some user, None)
      | None \<Rightarrow> (None, Some ErrUserNotFound))"

definition MemoryStorage_GetUserByID ::
  "MemoryStorage \<Rightarrow> string \<Rightarrow> OauthUser option \<times> error option" where
  "MemoryStorage_GetUserByID m userID =
     (case usersByID m userID of
        Some user \<Rightarrow> (Some user, None)
      | None \<Rightarrow> (None, Some ErrUserNotFound))"

text \<open>
  \<open>bcrypt.CompareHashAndPassword\<close> is a library function: the model takes it as the
  parameter \<open>compare\<close>, from the stored hash and the presented password to the error it
  returns (\<open>None\<close> when they match).
\<close>

definition MemoryStorage_AuthenticateUser ::
  "(string \<Rightarrow> string \<Rightarrow> error option) \<Rightarrow> MemoryStorage \<Rightarrow> string \<Rightarrow> string
     \<Rightarrow> OauthUser option \<times> error option" where
  "MemoryStorage_AuthenticateUser compare m username password =
     (case MemoryStorage_GetUser m username of
        (_, Some err) \<Rightarrow> (None, Some err)
      | (None, None) \<Rightarrow> (None, Some NilPointerPanic)
      | (Some user, None) \<Rightarrow>
          if NullString_Valid (Password user) then
            (case compare (NullString_String (Password user)) password of
               Some err \<Rightarrow> (None, Some ErrInvalidCredentials)
             | None \<Rightarrow> (Some user, None))
          else (None, Some ErrInvalidCredentials))"

definition MemoryStorage_GetAccessToken ::
  "Time \<Rightarrow> MemoryStorage \<Rightarrow> string \<Rightarrow> OauthAccessToken option \<times> error option" where
  "MemoryStorage_GetAccessToken now m tokenStr =
     (case accessTokens m tokenStr of
        Some token \<Rightarrow>
          if Time_Before (at_ExpiresAt token) now then (None, Some ErrTokenExpired)
          else (Some token, None)
      | None \<Rightarrow> (None, Some ErrTokenNotFound))"

definition MemoryStorage_DeleteAccessToken ::
  "MemoryStorage \<Rightarrow> string \<Rightarrow> MemoryStorage \<times> error option" where
  "MemoryStorage_DeleteAccessToken m tokenStr =
     (m\<lparr>accessTokens := (accessTokens m)(tokenStr := None)\<rparr>, None)"

text \<open>
  The two \<open>range\<close> statements of \<open>CleanupExpiredTokens\<close> visit every entry of a map once, in no
  fixed order, and delete the entry visited when its expiry is before \<open>now\<close>; the outcome
  does not depend on the order, and \<open>delete_expired\<close> is that outcome.
\<close>

definition delete_expired ::
  "('v \<Rightarrow> Time) \<Rightarrow> Time \<Rightarrow> (string \<rightharpoonup> 'v) \<Rightarrow> (string \<rightharpoonup> 'v)" where
  "delete_expired expiresAt now tbl =
     (\<lambda>token. case tbl token of
        None \<Rightarrow> None
      | Some v \<Rightarrow> if Time_Before (expiresAt v) now then None else Some v)"

definition MemoryStorage_CleanupExpiredTokens ::
  "Time \<Rightarrow> MemoryStorage \<Rightarrow> MemoryStorage \<times> error option" where
  "MemoryStorage_CleanupExpiredTokens now m =
     (m\<lparr>accessTokens := delete_expired at_ExpiresAt now (accessTokens m),
        refreshTokens := delete_expired rt_ExpiresAt now (refreshTokens m)\<rparr>, None)"

definition MemoryStorage_GetRefreshToken ::
  "Time \<Rightarrow> MemoryStorage \<Rightarrow> string \<Rightarrow> OauthRefreshToken option \<times> error option" where
  "MemoryStorage_GetRefreshToken now m tokenStr =
     (case refreshTokens m tokenStr of
        Some token \<Rightarrow>
          if Time_Before (rt_ExpiresAt token) now then (None, Some ErrTokenExpired)
          else (Some token, None)
      | None \<Rightarrow> (None, Some ErrTokenNotFound))"

definition MemoryStorage_DeleteRefreshToken ::
  "MemoryStorage \<Rightarrow> string \<Rightarrow> MemoryStorage \<times> error option" where
  "MemoryStorage_DeleteRefreshToken m tokenStr =
     (m\<lparr>refreshTokens := (refreshTokens m)(tokenStr := None)\<rparr>, None)"

definition MemoryStorage_GetAuthorizationCode ::
  "Time \<Rightarrow> MemoryStorage \<Rightarrow> string \<Rightarrow> OauthAuthorizationCode option \<times> error option" where
  "MemoryStorage_GetAuthorizationCode now m codeStr =
     (case authCodes m codeStr of
        Some code \<Rightarrow>
          if Time_Before (ac_ExpiresAt code) now then (None, Some ErrCodeExpired)
          else (Some code, None)
      | None \<Rightarrow> (None, Some ErrCodeNotFound))"

definition MemoryStorage_DeleteAuthorizationCode ::
  "MemoryStorage \<Rightarrow> string \<Rightarrow> MemoryStorage \<times> error option" where
  "MemoryStorage_DeleteAuthorizationCode m codeStr =
     (m\<lparr>authCodes := (authCodes m)(codeStr := None)\<rparr>, None)"

definition MemoryStorage_GetScope ::
  "MemoryStorage \<Rightarrow> string \<Rightarrow> OauthScope option \<times> error option" where
  "MemoryStorage_GetScope m scope =
     (case scopes m scope of
        Some scopeObj \<Rightarrow> (Some scopeObj, None)
      | None \<Rightarrow> (None, Some ErrScopeNotFound))"

definition MemoryStorage_GetDefaultScope :: "MemoryStorage \<Rightarrow> string \<times> error option" where
  "MemoryStorage_GetDefaultScope m = (''read'', None)"

section \<open>Token validation (oauth/authenticate.go)\<close>

text \<open>
  Modelled from the spec: the gorm library, the schema and the \<open>Config\<close> struct are not
  among the sources. A table is the list of its rows in primary-key order; \<open>First\<close> yields
  the first row meeting the \<open>Where\<close> conditions or gorm's record-not-found error and
  leaves the destination struct at its zero value when it yields no row; \<open>UpdateColumn\<close>
  overwrites the column in every row meeting the conditions. An SQL comparison
  \<open>column = 'x'\<close> holds only for a non-NULL column. The lifetimes of \<open>OauthConfig\<close> are Go
  \<open>int\<close>s (64 bits), in seconds.

  The database is reached over a connection that can fail: \<open>fault n\<close> is the error the
  driver reports for the \<open>n\<close>-th statement of a call (\<open>None\<close>: the statement is executed).
  A failed statement changes nothing.
\<close>

record Database =
  oauth_clients :: "OauthClient list"
  oauth_users :: "OauthUser list"
  oauth_access_tokens :: "OauthAccessToken list"
  oauth_refresh_tokens :: "OauthRefreshToken list"
  oauth_authorization_codes :: "OauthAuthorizationCode list"

record OauthConfig =
  AccessTokenLifetime :: "64 word"
  RefreshTokenLifetime :: "64 word"
  AuthCodeLifetime :: "64 word"

type_synonym Faults = "nat \<Rightarrow> string option"

definition healthy :: Faults where
  "healthy = (\<lambda>n. None)"

definition db_First :: "string option \<Rightarrow> ('r \<Rightarrow> bool) \<Rightarrow> 'r list \<Rightarrow> error + 'r" where
  "db_First fault cond rows =
     (case fault of
        Some e \<Rightarrow> Inl (DriverError e)
      | None \<Rightarrow> (case find cond rows of None \<Rightarrow> Inl ErrRecordNotFound | Some r \<Rightarrow> Inr r))"

definition IsRecordNotFoundError :: "error \<Rightarrow> bool" where
  "IsRecordNotFoundError err \<longleftrightarrow> err = ErrRecordNotFound"

text \<open>
  The \<open>Where\<close> conditions of the refresh-token update: \<open>client_id = ?\<close> with
  \<open>accessToken.ClientID.String\<close>, and \<open>user_id = ?\<close> with \<open>accessToken.UserID.String\<close>
  when the access token has a user, \<open>user_id IS NULL\<close> when it has none.
\<close>

definition refresh_query :: "OauthAccessToken \<Rightarrow> OauthRefreshToken \<Rightarrow> bool" where
  "refresh_query accessToken r \<longleftrightarrow>
     rt_ClientID r = Some (NullString_String (at_ClientID accessToken)) \<and>
     (if NullString_Valid (at_UserID accessToken)
      then rt_UserID r = Some (NullString_String (at_UserID accessToken))
      else rt_UserID r = None)"

text \<open>
  \<open>Service.Authenticate\<close>. The clock is read twice: \<open>now\<close> is \<open>time.Now().UTC()\<close> of the
  expiry check, \<open>nowFunc\<close> is \<open>gorm.NowFunc()\<close> of the extension. The result is the
  database after the call and the returned pair.
\<close>

definition Authenticate ::
  "OauthConfig \<Rightarrow> Time \<Rightarrow> Time \<Rightarrow> Faults \<Rightarrow> Database \<Rightarrow> string
     \<Rightarrow> Database \<times> OauthAccessToken option \<times> error option" where
  "Authenticate cnf now nowFunc fault d token =
     (let (accessToken, notFound) =
        (case db_First (fault 0) (\<lambda>t. at_Token t = token) (oauth_access_tokens d) of
           Inr t \<Rightarrow> (t, False)
         | Inl err \<Rightarrow> (zero_OauthAccessToken, IsRecordNotFoundError err))
      in if notFound then (d, None, Some ErrAccessTokenNotFound)
         else if Time_After now (at_ExpiresAt accessToken)
           then (d, None, Some ErrAccessTokenExpired)
         else
           (let increasedExpiresAt = Time_Add nowFunc (RefreshTokenLifetime cnf * Second)
            in case fault 1 of
                 Some e \<Rightarrow> (d, None, Some (DriverError e))
               | None \<Rightarrow>
                   (d\<lparr>oauth_refresh_tokens :=
                        map (\<lambda>r. if refresh_query accessToken r
                                  then r\<lparr>rt_ExpiresAt := increasedExpiresAt\<rparr> else r)
                            (oauth_refresh_tokens d)\<rparr>,
                    Some accessToken, None)))"

section \<open>The in-memory cache (storage/factory.go)\<close>

text \<open>
  \<open>MemoryCache\<close> holds a map from keys to items. \<open>Get\<close> receives the destination \<open>dest\<close>
  (a pointer to the caller's variable); the model returns the value that variable holds
  after the call, with the error. The map is the one \<open>NewMemoryCache\<close> makes.
\<close>

record 'v CacheItem =
  Value :: 'v
  ExpiresAt :: Time

record 'v MemoryCache =
  data :: "string \<rightharpoonup> 'v CacheItem"

definition NewMemoryCache :: "'v MemoryCache" where
  "NewMemoryCache = \<lparr>data = Map.empty\<rparr>"

definition MemoryCache_Set ::
  "Time \<Rightarrow> 'v MemoryCache \<Rightarrow> string \<Rightarrow> 'v \<Rightarrow> Duration \<Rightarrow> 'v MemoryCache \<times> error option" where
  "MemoryCache_Set now m key v ttl =
     (m\<lparr>data := (data m)(key \<mapsto> \<lparr>Value = v, ExpiresAt = Time_Add now ttl\<rparr>)\<rparr>, None)"

definition MemoryCache_Get ::
  "Time \<Rightarrow> 'v MemoryCache \<Rightarrow> string \<Rightarrow> 'd \<Rightarrow> 'd \<times> error option" where
  "MemoryCache_Get now m key dest =
     (case data m key of
        None \<Rightarrow> (dest, Some (Errorf ''key not found or expired'' None))
      | Some item \<Rightarrow>
          if Time_After now (ExpiresAt item)
          then (dest, Some (Errorf ''key not found or expired'' None))
          else (dest, None))"


section \<open>The Redis cache (storage/redis/redis.go)\<close>

text \<open>
  Modelled from the spec: the Redis server, the go-redis client and \<open>encoding/json\<close> are
  not among the sources; the Cache Port's contract (set with a TTL, get giving the value or
  a miss, delete) stands for them. The server holds entries under full keys. An entry
  keeps the document \<open>SET\<close> stored, the expiration \<open>SET\<close> was given and the instant the
  server executed it; an expiration above zero ends the entry that long after, any other
  expiration sets no end (the client's rounding to milliseconds is left out). Marshalling
  an entity and unmarshalling its document do not fail; unmarshalling hands the caller's
  \<open>unmarshal\<close> the stored document. \<open>reply\<close> is the error the client reports for the one command an operation
  sends (the server unreachable, the caller's context cancelled; \<open>None\<close>: the server
  executes the command). A command that fails has no effect.
\<close>

record 'v RedisEntry =
  document :: 'v
  expiration :: Duration
  storedAt :: Time

record 'v RedisCache =
  server :: "string \<rightharpoonup> 'v RedisEntry"
  prefix :: string

definition getFullKey :: "'v RedisCache \<Rightarrow> string \<Rightarrow> string" where
  "getFullKey r key = (if prefix r = [] then key else prefix r @ '':'' @ key)"

definition entry_ended :: "Time \<Rightarrow> 'v RedisEntry \<Rightarrow> bool" where
  "entry_ended now entry \<longleftrightarrow>
     0 < sint (expiration entry) \<and> storedAt entry + sint (expiration entry) \<le> now"

definition RedisCache_Set ::
  "Time \<Rightarrow> string option \<Rightarrow> 'v RedisCache \<Rightarrow> string \<Rightarrow> 'v \<Rightarrow> Duration
     \<Rightarrow> 'v RedisCache \<times> error option" where
  "RedisCache_Set now reply r key v ttl =
     (case reply of
        Some e \<Rightarrow> (r, Some (Errorf ''failed to set cache value'' (Some (RedisError e))))
      | None \<Rightarrow>
          (r\<lparr>server := (server r)(getFullKey r key \<mapsto>
                 \<lparr>document = v, expiration = ttl, storedAt = now\<rparr>)\<rparr>, None))"

definition RedisCache_Get ::
  "Time \<Rightarrow> string option \<Rightarrow> 'v RedisCache \<Rightarrow> string \<Rightarrow> ('v \<Rightarrow> 'd \<Rightarrow> 'd) \<Rightarrow> 'd
     \<Rightarrow> 'd \<times> error option" where
  "RedisCache_Get now reply r key unmarshal dest =
     (case reply of
        Some e \<Rightarrow> (dest, Some (Errorf ''failed to get cache value'' (Some (RedisError e))))
      | None \<Rightarrow>
          (case server r (getFullKey r key) of
             None \<Rightarrow> (dest, Some (Errorf ''cache miss'' None))
           | Some entry \<Rightarrow>
               if entry_ended now entry then (dest, Some (Errorf ''cache miss'' None))
               else (unmarshal (document entry) dest, None)))"


section \<open>The relational backend (storage/postgres/postgres.go)\<close>

text \<open>
  \<open>PostgreSQLStorage\<close> holds the gorm handle and the cache, a \<open>CacheProvider\<close>: nil
  (\<open>None\<close>) or one of the repository's two implementations of the interface,
  \<open>MemoryCache\<close> and \<open>RedisCache\<close>. The values it caches are clients, users and access
  tokens. The metrics providers of the repository do nothing and are left out.

  The clock is read several times during a call, and every reading is a parameter of its
  own: \<open>tGet\<close> is the instant at which the cache evaluates a \<open>Get\<close> (\<open>time.Now()\<close> in
  \<open>MemoryCache.Get\<close>), \<open>tAfter\<close> the reading of the guard \<open>token.ExpiresAt.After(time.Now())\<close>,
  \<open>tUntil\<close> the reading inside \<open>time.Until(token.ExpiresAt)\<close>, and \<open>tSet\<close> the instant at
  which the cache executes a \<open>Set\<close> (\<open>time.Now()\<close> in \<open>MemoryCache.Set\<close>). \<open>fault\<close> gives
  the faults of the database connection and \<open>cfault n\<close> the reply of the Redis client to
  the \<open>n\<close>-th cache command of the call. Each operation returns the storage after the call
  with the returned values.
\<close>

datatype CacheValue =
    ClientValue OauthClient
  | UserValue OauthUser
  | AccessTokenValue OauthAccessToken

datatype CacheProvider =
    MemoryCacheProvider "CacheValue MemoryCache"
  | RedisCacheProvider "CacheValue RedisCache"

record PostgreSQLStorage =
  db :: Database
  cache :: "CacheProvider option"

text \<open>
  Unmarshalling a cached document into the caller's variable: the document of an entity
  of the variable's type replaces the variable. A document of another entity, which no
  operation of this storage writes under the key, is taken to leave the variable as it is.
\<close>

definition unmarshal_Client :: "CacheValue \<Rightarrow> OauthClient \<Rightarrow> OauthClient" where
  "unmarshal_Client v dest = (case v of ClientValue client \<Rightarrow> client | _ \<Rightarrow> dest)"

definition unmarshal_User :: "CacheValue \<Rightarrow> OauthUser \<Rightarrow> OauthUser" where
  "unmarshal_User v dest = (case v of UserValue user \<Rightarrow> user | _ \<Rightarrow> dest)"

definition unmarshal_AccessToken :: "CacheValue \<Rightarrow> OauthAccessToken \<Rightarrow> OauthAccessToken" where
  "unmarshal_AccessToken v dest = (case v of AccessTokenValue token \<Rightarrow> token | _ \<Rightarrow> dest)"

text \<open>The three methods of the interface the storage calls, dispatched on the provider.\<close>

definition CacheProvider_Set ::
  "Time \<Rightarrow> string option \<Rightarrow> CacheProvider \<Rightarrow> string \<Rightarrow> CacheValue \<Rightarrow> Duration
     \<Rightarrow> CacheProvider \<times> error option" where
  "CacheProvider_Set now reply p key v ttl =
     (case p of
        MemoryCacheProvider m \<Rightarrow>
          (case MemoryCache_Set now m key v ttl of (m', err) \<Rightarrow> (MemoryCacheProvider m', err))
      | RedisCacheProvider r \<Rightarrow>
          (case RedisCache_Set now reply r key v ttl of
             (r', err) \<Rightarrow> (RedisCacheProvider r', err)))"

definition CacheProvider_Get ::
  "Time \<Rightarrow> string option \<Rightarrow> CacheProvider \<Rightarrow> string \<Rightarrow> (CacheValue \<Rightarrow> 'd \<Rightarrow> 'd) \<Rightarrow> 'd
     \<Rightarrow> 'd \<times> error option" where
  "CacheProvider_Get now reply p key unmarshal dest =
     (case p of
        MemoryCacheProvider m \<Rightarrow> MemoryCache_Get now m key dest
      | RedisCacheProvider r \<Rightarrow> RedisCache_Get now reply r key unmarshal dest)"


definition wrap :: "string \<Rightarrow> string \<Rightarrow> error" where
  \<comment> \<open>\<open>fmt.Errorf("msg: %w", err)\<close> around a driver error\<close>
  "wrap msg e = Errorf msg (Some (DriverError e))"


definition Preload :: "Database \<Rightarrow> OauthAccessToken \<Rightarrow> OauthAccessToken" where
  "Preload d token =
     token\<lparr>at_Client := (case at_ClientID token of
                           None \<Rightarrow> None
                         | Some k \<Rightarrow> find (\<lambda>c. Key c = k) (oauth_clients d)),
           at_User := (case at_UserID token of
                         None \<Rightarrow> None
                       | Some i \<Rightarrow> find (\<lambda>u. ID u = i) (oauth_users d))\<rparr>"

text \<open>
  The three ways the storage uses its cache. \<open>cache_Get\<close> is the "try cache first" block:
  the destination after a \<open>Get\<close> that returned no error, \<open>None\<close> when there is no cache or
  the \<open>Get\<close> returned an error. \<open>cache_Set\<close> and \<open>cache_Delete\<close> are
  \<open>if s.cache != nil { s.cache.Set(...) }\<close> and \<open>if s.cache != nil { s.cache.Delete(...) }\<close>:
  the error the provider returns is dropped.
\<close>

definition cache_Get ::
  "Time \<Rightarrow> string option \<Rightarrow> CacheProvider option \<Rightarrow> string \<Rightarrow> (CacheValue \<Rightarrow> 'd \<Rightarrow> 'd) \<Rightarrow> 'd
     \<Rightarrow> 'd option" where
  "cache_Get now reply c cacheKey unmarshal dest =
     (case c of
        None \<Rightarrow> None
      | Some p \<Rightarrow>
          (case CacheProvider_Get now reply p cacheKey unmarshal dest of
             (dest', None) \<Rightarrow> Some dest'
           | (dest', Some err) \<Rightarrow> None))"

definition cache_Set ::
  "Time \<Rightarrow> string option \<Rightarrow> CacheProvider option \<Rightarrow> string \<Rightarrow> CacheValue \<Rightarrow> Duration
     \<Rightarrow> CacheProvider option" where
  "cache_Set now reply c cacheKey v ttl =
     (case c of
        None \<Rightarrow> None
      | Some p \<Rightarrow> Some (fst (CacheProvider_Set now reply p cacheKey v ttl)))"


definition PostgreSQLStorage_GetClient ::
  "Time \<Rightarrow> Time \<Rightarrow> Faults \<Rightarrow> Faults \<Rightarrow> PostgreSQLStorage \<Rightarrow> string
     \<Rightarrow> PostgreSQLStorage \<times> OauthClient option \<times> error option" where
  "PostgreSQLStorage_GetClient tGet tSet fault cfault s clientID =
     (case cache_Get tGet (cfault 0) (cache s) (''client:'' @ clientID) unmarshal_Client
             zero_OauthClient of
        Some client \<Rightarrow> (s, Some client, None)
      | None \<Rightarrow>
          (case db_First (fault 0) (\<lambda>c. Key c = clientID) (oauth_clients (db s)) of
             Inl err \<Rightarrow>
               if IsRecordNotFoundError err then (s, None, None)
               else (s, None, Some (Errorf ''failed to get client'' (Some err)))
           | Inr client \<Rightarrow>
               (s\<lparr>cache := cache_Set tSet (cfault 1) (cache s) (''client:'' @ clientID)
                              (ClientValue client) (5 * Minute)\<rparr>,
                Some client, None)))"




definition PostgreSQLStorage_GetUser ::
  "Time \<Rightarrow> Time \<Rightarrow> Faults \<Rightarrow> Faults \<Rightarrow> PostgreSQLStorage \<Rightarrow> string
     \<Rightarrow> PostgreSQLStorage \<times> OauthUser option \<times> error option" where
  "PostgreSQLStorage_GetUser tGet tSet fault cfault s username =
     (case cache_Get tGet (cfault 0) (cache s) (''user:'' @ username) unmarshal_User
             zero_OauthUser of
        Some user \<Rightarrow> (s, Some user, None)
      | None \<Rightarrow>
          (case db_First (fault 0) (\<lambda>u. Username u = username) (oauth_users (db s)) of
             Inl err \<Rightarrow>
               if IsRecordNotFoundError err then (s, None, None)
               else (s, None, Some (Errorf ''failed to get user'' (Some err)))
           | Inr user \<Rightarrow>
               (s\<lparr>cache := cache_Set tSet (cfault 1) (cache s) (''user:'' @ username)
                              (UserValue user) (5 * Minute)\<rparr>,
                Some user, None)))"

definition PostgreSQLStorage_GetUserByID ::
  "Faults \<Rightarrow> PostgreSQLStorage \<Rightarrow> string \<Rightarrow> OauthUser option \<times> error option" where
  "PostgreSQLStorage_GetUserByID fault s userID =
     (case db_First (fault 0) (\<lambda>u. ID u = userID) (oauth_users (db s)) of
        Inl err \<Rightarrow>
          if IsRecordNotFoundError err then (None, None)
          else (None, Some (Errorf ''failed to get user by ID'' (Some err)))
      | Inr user \<Rightarrow> (Some user, None))"

definition PostgreSQLStorage_AuthenticateUser ::
  "Time \<Rightarrow> Time \<Rightarrow> Faults \<Rightarrow> Faults \<Rightarrow> PostgreSQLStorage \<Rightarrow> string \<Rightarrow> string
     \<Rightarrow> PostgreSQLStorage \<times> OauthUser option \<times> error option" where
  "PostgreSQLStorage_AuthenticateUser tGet tSet fault cfault s username password =
     (case PostgreSQLStorage_GetUser tGet tSet fault cfault s username of
        (s', user, Some err) \<Rightarrow> (s', None, Some err)
      | (s', None, None) \<Rightarrow> (s', None, None)
      | (s', Some user, None) \<Rightarrow> (s', Some user, None))"


definition PostgreSQLStorage_GetAccessToken ::
  "Time \<Rightarrow> Time \<Rightarrow> Time \<Rightarrow> Time \<Rightarrow> Faults \<Rightarrow> Faults \<Rightarrow> PostgreSQLStorage \<Rightarrow> string
     \<Rightarrow> PostgreSQLStorage \<times> OauthAccessToken option \<times> error option" where
  "PostgreSQLStorage_GetAccessToken tGet tAfter tUntil tSet fault cfault s tokenStr =
     (case cache_Get tGet (cfault 0) (cache s) (''access_token:'' @ tokenStr)
             unmarshal_AccessToken zero_OauthAccessToken of
        Some token \<Rightarrow> (s, Some token, None)
      | None \<Rightarrow>
          (case db_First (fault 0) (\<lambda>t. at_Token t = tokenStr) (oauth_access_tokens (db s)) of
             Inl err \<Rightarrow>
               if IsRecordNotFoundError err then (s, None, None)
               else (s, None, Some (Errorf ''failed to get access token'' (Some err)))
           | Inr row \<Rightarrow>
               (let token = Preload (db s) row
                in ((if cache s \<noteq> None \<and> Time_After (at_ExpiresAt token) tAfter
                     then s\<lparr>cache := cache_Set tSet (cfault 1) (cache s)
                                       (''access_token:'' @ tokenStr) (AccessTokenValue token)
                                       (Until tUntil (at_ExpiresAt token))\<rparr>
                     else s),
                    Some token, None))))"

definition PostgreSQLStorage_CleanupExpiredTokens ::
  "Time \<Rightarrow> Faults \<Rightarrow> PostgreSQLStorage \<Rightarrow> PostgreSQLStorage \<times> error option" where
  "PostgreSQLStorage_CleanupExpiredTokens now fault s =
     (case fault 0 of
        Some e \<Rightarrow> (s, Some (wrap ''failed to cleanup expired access tokens'' e))
      | None \<Rightarrow>
          (let s1 = s\<lparr>db := (db s)\<lparr>oauth_access_tokens :=
                         filter (\<lambda>t. \<not> at_ExpiresAt t < now) (oauth_access_tokens (db s))\<rparr>\<rparr>
           in case fault 1 of
                Some e \<Rightarrow> (s1, Some (wrap ''failed to cleanup expired refresh tokens'' e))
              | None \<Rightarrow>
                  (let s2 = s1\<lparr>db := (db s1)\<lparr>oauth_refresh_tokens :=
                                 filter (\<lambda>t. \<not> rt_ExpiresAt t < now)
                                        (oauth_refresh_tokens (db s1))\<rparr>\<rparr>
                   in case fault 2 of
                        Some e \<Rightarrow>
                          (s2, Some (wrap ''failed to cleanup expired authorization codes'' e))
                      | None \<Rightarrow>
                          (s2\<lparr>db := (db s2)\<lparr>oauth_authorization_codes :=
                                  filter (\<lambda>c. \<not> ac_ExpiresAt c < now)
                                         (oauth_authorization_codes (db s2))\<rparr>\<rparr>, None))))"

section \<open>Reference definitions and example states\<close>




text \<open>
  The specification's default scope, as the specification words it: the scope formed by
  the scopes flagged default, their names joined by single spaces.
\<close>

fun join_scopes :: "string list \<Rightarrow> string" where
  "join_scopes [] = []"
| "join_scopes [x] = x"
| "join_scopes (x # y # ys) = x @ '' '' @ join_scopes (y # ys)"

definition spec_default_scope :: "OauthScope list \<Rightarrow> string" where
  "spec_default_scope rows = join_scopes (map Scope (filter IsDefault rows))"

definition scopes_of :: "OauthScope list \<Rightarrow> (string \<rightharpoonup> OauthScope)" where
  \<comment> \<open>the scope map of a store holding these scopes\<close>
  "scopes_of rows = map_of (map (\<lambda>s. (Scope s, s)) rows)"

text \<open>Example data: a client before and after an update, a user, tokens, a code, scopes.\<close>

definition client1 :: OauthClient where
  "client1 = \<lparr>Key = ''c1'', Secret = ''s1'', RedirectURI = None, client_CreatedAt = 0\<rparr>"



definition alice :: OauthUser where
  "alice = \<lparr>ID = ''1'', Username = ''alice'', Password = Some ''hash-of-secret'',
            user_CreatedAt = 0\<rparr>"

definition example_compare :: "string \<Rightarrow> string \<Rightarrow> error option" where
  \<comment> \<open>a password check under which only \<open>secret\<close> matches alice's stored hash\<close>
  "example_compare hashedPassword password =
     (if hashedPassword = ''hash-of-secret'' \<and> password = ''secret'' then None
      else Some (Errorf ''hashedPassword is not the hash of the given password'' None))"

definition token0 :: OauthAccessToken where
  "token0 = \<lparr>at_Token = ''tok'', at_ClientID = Some ''c1'', at_UserID = None, at_Client = None,
             at_User = None, at_Scope = ''read'', at_ExpiresAt = 1000, at_CreatedAt = 0\<rparr>"



definition refresh0 :: OauthRefreshToken where
  "refresh0 = \<lparr>rt_Token = ''ref'', rt_ClientID = Some ''c1'', rt_UserID = None,
               rt_Scope = ''read'', rt_ExpiresAt = 1209600000000000, rt_CreatedAt = 0\<rparr>"

definition code0 :: OauthAuthorizationCode where
  "code0 = \<lparr>ac_Code = ''code'', ac_ClientID = Some ''c1'', ac_UserID = Some ''1'',
            ac_RedirectURI = None, ac_Scope = ''read'', ac_ExpiresAt = 5, ac_CreatedAt = 0\<rparr>"

definition scope_read :: OauthScope where
  "scope_read = \<lparr>Scope = ''read'', IsDefault = False\<rparr>"

definition scope_read_write :: OauthScope where
  "scope_read_write = \<lparr>Scope = ''read_write'', IsDefault = True\<rparr>"

definition config0 :: OauthConfig where
  "config0 = \<lparr>AccessTokenLifetime = 3600, RefreshTokenLifetime = 3600, AuthCodeLifetime = 3600\<rparr>"

definition empty_Database :: Database where
  "empty_Database = \<lparr>oauth_clients = [], oauth_users = [], oauth_access_tokens = [],
     oauth_refresh_tokens = [], oauth_authorization_codes = []\<rparr>"

definition database0 :: Database where
  "database0 = empty_Database\<lparr>oauth_access_tokens := [token0],
                              oauth_refresh_tokens := [refresh0]\<rparr>"

definition memory0 :: MemoryStorage where
  "memory0 = NewMemoryStorage\<lparr>accessTokens := [''tok'' \<mapsto> token0]\<rparr>"

definition memory1 :: MemoryStorage where
  "memory1 = NewMemoryStorage\<lparr>users := [''alice'' \<mapsto> alice], usersByID := [''1'' \<mapsto> alice],
     authCodes := [''code'' \<mapsto> code0]\<rparr>"


definition postgres0 :: PostgreSQLStorage where
  \<comment> \<open>a storage with an empty in-memory cache\<close>
  "postgres0 = \<lparr>db = empty_Database\<lparr>oauth_clients := [client1], oauth_users := [alice]\<rparr>,
                cache = Some (MemoryCacheProvider NewMemoryCache)\<rparr>"





section \<open>Token validation: expiry boundary and refresh-token extension\<close>

lemma sint_seconds:
  assumes "- 9223372036 \<le> sint (L :: 64 word)" and "sint L \<le> 9223372036"
  shows "sint (L * Second) = sint L * 1000000000"
proof -
  have "sint (L * Second) = signed_take_bit 63 (sint L * sint Second)"
    by (simp add: sint_word_ariths)
  moreover have "sint Second = 1000000000"
    by (simp add: Second_def)
  moreover have "signed_take_bit 63 (sint L * 1000000000) = sint L * 1000000000"
    using assms by (intro signed_take_bit_int_eq_self) auto
  ultimately show ?thesis by simp
qed

lemma Authenticate_result:
  assumes "fault 0 = None" and "fault 1 = None"
  shows "snd (Authenticate cnf now nowFunc fault d token) =
    (case find (\<lambda>t. at_Token t = token) (oauth_access_tokens d) of
       None \<Rightarrow> (None, Some ErrAccessTokenNotFound)
     | Some t \<Rightarrow>
         if at_ExpiresAt t < now then (None, Some ErrAccessTokenExpired) else (Some t, None))"
  using assms
  by (simp add: Authenticate_def db_First_def Time_After_def IsRecordNotFoundError_def Let_def
      split: option.splits)

lemma Authenticate_success:
  assumes "Authenticate cnf now nowFunc fault d token = (d', Some t, None)"
  shows "d' = d\<lparr>oauth_refresh_tokens :=
                 map (\<lambda>r. if refresh_query t r
                           then r\<lparr>rt_ExpiresAt :=
                                    Time_Add nowFunc (RefreshTokenLifetime cnf * Second)\<rparr>
                           else r)
                     (oauth_refresh_tokens d)\<rparr>"
  using assms
  by (auto simp: Authenticate_def Let_def split: sum.splits if_splits option.splits)

lemma refresh_query_client:
  assumes "at_ClientID t = Some c"
  shows "refresh_query t r \<longleftrightarrow> rt_ClientID r = at_ClientID t \<and> rt_UserID r = at_UserID t"
  using assms
  by (cases "at_UserID t")
    (auto simp: refresh_query_def NullString_String_def NullString_Valid_def)

text \<open>
  Claim C1 as stated fails: at exactly the expiry instant (\<open>now = 1000\<close>, the expiry of
  \<open>token0\<close>) \<open>Authenticate\<close> returns the access token, and so does the in-memory
  \<open>GetAccessToken\<close>; neither answers "expired". \<open>time.Now().After(ExpiresAt)\<close> and
  \<open>ExpiresAt.Before(time.Now())\<close> are strict.
\<close>

theorem Authenticate_at_expiry_counterexample:
  "at_ExpiresAt token0 = 1000 \<and>
   snd (Authenticate config0 1000 1000 healthy database0 ''tok'') = (Some token0, None) \<and>
   MemoryStorage_GetAccessToken 1000 memory0 ''tok'' = (Some token0, None)"
  by (simp add: Authenticate_def db_First_def healthy_def database0_def empty_Database_def
      token0_def Time_After_def IsRecordNotFoundError_def MemoryStorage_GetAccessToken_def
      memory0_def NewMemoryStorage_def Time_Before_def)

text \<open>
  Claim C1, amended. When the database executes the statements of the call,
  \<open>Authenticate(t)\<close> returns the access-token record exactly when a token with that string
  is stored and the current time is at or before its expiry; it fails with the not-found
  error when no such token is stored, and with the expired error when the current time is
  strictly after the expiry. The in-memory \<open>GetAccessToken\<close> draws the same line with the
  storage package's errors. At the expiry instant itself both succeed.
\<close>

theorem Authenticate_succeeds_iff:
  assumes "fault 0 = None" and "fault 1 = None"
  shows
    "(find (\<lambda>t. at_Token t = token) (oauth_access_tokens d) = None \<longrightarrow>
        snd (Authenticate cnf now nowFunc fault d token) = (None, Some ErrAccessTokenNotFound)) \<and>
     (\<forall>t. find (\<lambda>t. at_Token t = token) (oauth_access_tokens d) = Some t \<longrightarrow>
        snd (Authenticate cnf now nowFunc fault d token) =
          (if now \<le> at_ExpiresAt t then (Some t, None)
           else (None, Some ErrAccessTokenExpired))) \<and>
     (accessTokens m token = None \<longrightarrow>
        MemoryStorage_GetAccessToken now m token = (None, Some ErrTokenNotFound)) \<and>
     (\<forall>t. accessTokens m token = Some t \<longrightarrow>
        MemoryStorage_GetAccessToken now m token =
          (if now \<le> at_ExpiresAt t then (Some t, None) else (None, Some ErrTokenExpired)))"
  using assms
  by (auto simp: Authenticate_result MemoryStorage_GetAccessToken_def Time_Before_def)

theorem Authenticate_succeeds_iff_witness:
  "healthy 0 = None \<and> healthy 1 = None \<and>
   find (\<lambda>t. at_Token t = ''tok'') (oauth_access_tokens database0) = Some token0 \<and>
   accessTokens memory0 ''tok'' = Some token0 \<and>
   snd (Authenticate config0 999 999 healthy database0 ''tok'') = (Some token0, None) \<and>
   snd (Authenticate config0 1000 1000 healthy database0 ''tok'') = (Some token0, None) \<and>
   snd (Authenticate config0 1001 1001 healthy database0 ''tok'')
     = (None, Some ErrAccessTokenExpired) \<and>
   MemoryStorage_GetAccessToken 1000 memory0 ''tok'' = (Some token0, None) \<and>
   MemoryStorage_GetAccessToken 1001 memory0 ''tok'' = (None, Some ErrTokenExpired)"
proof -
  have h: "healthy 0 = None" "healthy 1 = None"
    by (simp_all add: healthy_def)
  have f: "find (\<lambda>t. at_Token t = ''tok'') (oauth_access_tokens database0) = Some token0"
    by (simp add: database0_def token0_def)
  have a: "accessTokens memory0 ''tok'' = Some token0"
    by (simp add: memory0_def)
  have e: "at_ExpiresAt token0 = 1000"
    by (simp add: token0_def)
  show ?thesis
    using h f a e
      Authenticate_succeeds_iff [OF h, of "''tok''" database0 config0 999 999 memory0]
      Authenticate_succeeds_iff [OF h, of "''tok''" database0 config0 1000 1000 memory0]
      Authenticate_succeeds_iff [OF h, of "''tok''" database0 config0 1001 1001 memory0]
    by simp
qed

text \<open>
  Claim C3 as stated fails in its "never decreases" part: a refresh token of the client
  that holds an expiry 14 days ahead is pulled back to one hour ahead by a successful
  \<open>Authenticate\<close> under a configured lifetime of 3600 seconds. \<open>UpdateColumn\<close> overwrites
  the column; it does not take a maximum.
\<close>

theorem Authenticate_shrinks_expiry_counterexample:
  "snd (Authenticate config0 1000 1000 healthy database0 ''tok'') = (Some token0, None) \<and>
   map rt_ExpiresAt (oauth_refresh_tokens database0) = [1209600000000000] \<and>
   map rt_ExpiresAt
     (oauth_refresh_tokens (fst (Authenticate config0 1000 1000 healthy database0 ''tok'')))
     = [3600000001000]"
  by (simp add: Authenticate_def db_First_def healthy_def database0_def empty_Database_def
      token0_def Time_After_def IsRecordNotFoundError_def refresh0_def refresh_query_def
      NullString_String_def NullString_Valid_def config0_def Time_Add_def Second_def)

text \<open>
  Claim C3, amended. For every successful \<open>Authenticate(t)\<close> call on a token that has a
  client, under a configured refresh-token lifetime of \<open>L\<close> seconds that fits a Duration,
  the call changes the database in one way only: every refresh token whose client equals
  \<open>t\<close>'s client and whose user equals \<open>t\<close>'s user (absent when \<open>t\<close> has none) gets the
  expiry \<open>gorm.NowFunc() + L\<close> seconds, and every other refresh token is untouched. The
  expiry of a refresh token does not decrease provided it was at most that instant before
  the call.
\<close>

theorem Authenticate_extends_refresh_tokens:
  assumes "Authenticate cnf now nowFunc fault d token = (d', Some t, None)"
    and "at_ClientID t = Some c"
    and "- 9223372036 \<le> sint (RefreshTokenLifetime cnf)"
    and "sint (RefreshTokenLifetime cnf) \<le> 9223372036"
  shows
    "d' = d\<lparr>oauth_refresh_tokens :=
              map (\<lambda>r. if rt_ClientID r = at_ClientID t \<and> rt_UserID r = at_UserID t
                        then r\<lparr>rt_ExpiresAt :=
                                 nowFunc + sint (RefreshTokenLifetime cnf) * 1000000000\<rparr>
                        else r)
                  (oauth_refresh_tokens d)\<rparr> \<and>
     list_all2 (\<lambda>r r'. rt_ExpiresAt r \<le> nowFunc + sint (RefreshTokenLifetime cnf) * 1000000000
                          \<longrightarrow> rt_ExpiresAt r \<le> rt_ExpiresAt r')
       (oauth_refresh_tokens d) (oauth_refresh_tokens d')"
proof -
  let ?e = "nowFunc + sint (RefreshTokenLifetime cnf) * 1000000000"
  have e: "Time_Add nowFunc (RefreshTokenLifetime cnf * Second) = ?e"
    using assms(3,4) by (simp add: Time_Add_def sint_seconds)
  have d': "d' = d\<lparr>oauth_refresh_tokens :=
              map (\<lambda>r. if rt_ClientID r = at_ClientID t \<and> rt_UserID r = at_UserID t
                        then r\<lparr>rt_ExpiresAt := ?e\<rparr> else r)
                  (oauth_refresh_tokens d)\<rparr>"
    using Authenticate_success [OF assms(1)] refresh_query_client [OF assms(2)] e by simp
  have "list_all2 (\<lambda>r r'. rt_ExpiresAt r \<le> ?e \<longrightarrow> rt_ExpiresAt r \<le> rt_ExpiresAt r')
          (oauth_refresh_tokens d) (oauth_refresh_tokens d')"
    unfolding d' by (simp add: list_all2_map2 list_all2_same)
  with d' show ?thesis by simp
qed

theorem Authenticate_extends_refresh_tokens_witness:
  "Authenticate config0 1000 1000 healthy
      (database0\<lparr>oauth_refresh_tokens := [refresh0\<lparr>rt_ExpiresAt := 2000\<rparr>]\<rparr>) ''tok'' =
     (database0\<lparr>oauth_refresh_tokens := [refresh0\<lparr>rt_ExpiresAt := 3600000001000\<rparr>]\<rparr>,
      Some token0, None) \<and>
   at_ClientID token0 = Some ''c1'' \<and>
   - 9223372036 \<le> sint (RefreshTokenLifetime config0) \<and>
   sint (RefreshTokenLifetime config0) \<le> 9223372036 \<and>
   list_all2 (\<lambda>r r'. rt_ExpiresAt r \<le> 1000 + sint (RefreshTokenLifetime config0) * 1000000000
                          \<longrightarrow> rt_ExpiresAt r \<le> rt_ExpiresAt r')
     [refresh0\<lparr>rt_ExpiresAt := 2000\<rparr>] [refresh0\<lparr>rt_ExpiresAt := 3600000001000\<rparr>]"
proof -
  let ?d = "database0\<lparr>oauth_refresh_tokens := [refresh0\<lparr>rt_ExpiresAt := 2000\<rparr>]\<rparr>"
  let ?d' = "database0\<lparr>oauth_refresh_tokens := [refresh0\<lparr>rt_ExpiresAt := 3600000001000\<rparr>]\<rparr>"
  have run: "Authenticate config0 1000 1000 healthy ?d ''tok'' = (?d', Some token0, None)"
    by (simp add: Authenticate_def db_First_def healthy_def database0_def empty_Database_def
        token0_def Time_After_def IsRecordNotFoundError_def refresh0_def refresh_query_def
        NullString_String_def NullString_Valid_def config0_def Time_Add_def Second_def)
  have c: "at_ClientID token0 = Some ''c1''"
    by (simp add: token0_def)
  have lo: "- 9223372036 \<le> sint (RefreshTokenLifetime config0)"
    by (simp add: config0_def)
  have hi: "sint (RefreshTokenLifetime config0) \<le> 9223372036"
    by (simp add: config0_def)
  show ?thesis
    using run c lo hi Authenticate_extends_refresh_tokens [OF run c lo hi] by simp
qed

section \<open>The in-memory backend: deletes, cleanup, credentials, default scope\<close>

text \<open>
  Claim C9. For every key, present or absent, \<open>DeleteClient\<close>, \<open>DeleteAccessToken\<close>,
  \<open>DeleteRefreshToken\<close> and \<open>DeleteAuthorizationCode\<close> of the in-memory backend return no
  error and leave the store with that key removed from their map and nothing else changed;
  deleting an absent key leaves the store as it was, and a second delete of the same key
  succeeds again and changes nothing.
\<close>

theorem MemoryStorage_delete_succeeds:
  "MemoryStorage_DeleteClient m k = (m\<lparr>clients := (clients m)(k := None)\<rparr>, None) \<and>
   MemoryStorage_DeleteAccessToken m k
     = (m\<lparr>accessTokens := (accessTokens m)(k := None)\<rparr>, None) \<and>
   MemoryStorage_DeleteRefreshToken m k
     = (m\<lparr>refreshTokens := (refreshTokens m)(k := None)\<rparr>, None) \<and>
   MemoryStorage_DeleteAuthorizationCode m k
     = (m\<lparr>authCodes := (authCodes m)(k := None)\<rparr>, None) \<and>
   (clients m k = None \<longrightarrow> MemoryStorage_DeleteClient m k = (m, None)) \<and>
   (accessTokens m k = None \<longrightarrow> MemoryStorage_DeleteAccessToken m k = (m, None)) \<and>
   (refreshTokens m k = None \<longrightarrow> MemoryStorage_DeleteRefreshToken m k = (m, None)) \<and>
   (authCodes m k = None \<longrightarrow> MemoryStorage_DeleteAuthorizationCode m k = (m, None)) \<and>
   MemoryStorage_DeleteClient (fst (MemoryStorage_DeleteClient m k)) k
     = (fst (MemoryStorage_DeleteClient m k), None) \<and>
   MemoryStorage_DeleteAccessToken (fst (MemoryStorage_DeleteAccessToken m k)) k
     = (fst (MemoryStorage_DeleteAccessToken m k), None) \<and>
   MemoryStorage_DeleteRefreshToken (fst (MemoryStorage_DeleteRefreshToken m k)) k
     = (fst (MemoryStorage_DeleteRefreshToken m k), None) \<and>
   MemoryStorage_DeleteAuthorizationCode (fst (MemoryStorage_DeleteAuthorizationCode m k)) k
     = (fst (MemoryStorage_DeleteAuthorizationCode m k), None)"
  by (simp add: MemoryStorage_DeleteClient_def MemoryStorage_DeleteAccessToken_def
      MemoryStorage_DeleteRefreshToken_def MemoryStorage_DeleteAuthorizationCode_def
      fun_upd_idem)

theorem MemoryStorage_delete_succeeds_witness:
  "clients memory1 ''absent'' = None \<and> accessTokens memory1 ''absent'' = None \<and>
   refreshTokens memory1 ''absent'' = None \<and> authCodes memory1 ''absent'' = None \<and>
   MemoryStorage_DeleteClient memory1 ''absent'' = (memory1, None) \<and>
   MemoryStorage_DeleteAccessToken memory1 ''absent'' = (memory1, None) \<and>
   MemoryStorage_DeleteRefreshToken memory1 ''absent'' = (memory1, None) \<and>
   MemoryStorage_DeleteAuthorizationCode memory1 ''absent'' = (memory1, None)"
  using MemoryStorage_delete_succeeds [of memory1 "''absent''"]
  by (simp add: memory1_def NewMemoryStorage_def)

text \<open>
  What the in-memory cleanup does: access and refresh tokens whose expiry is strictly
  before \<open>now\<close> go, all others stay, and the authorization codes are not looked at. The
  relational cleanup filters all three tables.
\<close>

lemma MemoryStorage_Cleanup_tokens:
  "accessTokens (fst (MemoryStorage_CleanupExpiredTokens now m)) k =
     (case accessTokens m k of
        None \<Rightarrow> None
      | Some t \<Rightarrow> if at_ExpiresAt t < now then None else Some t) \<and>
   refreshTokens (fst (MemoryStorage_CleanupExpiredTokens now m)) k =
     (case refreshTokens m k of
        None \<Rightarrow> None
      | Some t \<Rightarrow> if rt_ExpiresAt t < now then None else Some t) \<and>
   authCodes (fst (MemoryStorage_CleanupExpiredTokens now m)) = authCodes m"
  by (simp add: MemoryStorage_CleanupExpiredTokens_def delete_expired_def Time_Before_def
      split: option.splits)

lemma PostgreSQLStorage_Cleanup_healthy:
  assumes "fault 0 = None" and "fault 1 = None" and "fault 2 = None"
  shows "PostgreSQLStorage_CleanupExpiredTokens now fault s =
    (s\<lparr>db := (db s)\<lparr>
        oauth_access_tokens :=
          filter (\<lambda>t. now \<le> at_ExpiresAt t) (oauth_access_tokens (db s)),
        oauth_refresh_tokens :=
          filter (\<lambda>t. now \<le> rt_ExpiresAt t) (oauth_refresh_tokens (db s)),
        oauth_authorization_codes :=
          filter (\<lambda>c. now \<le> ac_ExpiresAt c) (oauth_authorization_codes (db s))\<rparr>\<rparr>, None)"
  using assms by (simp add: PostgreSQLStorage_CleanupExpiredTokens_def not_less)

text \<open>
  Claim C5 (the code departs from it). The store \<open>memory1\<close> holds the authorization code
  \<open>code0\<close>, whose expiry 5 is strictly before the instant 10; after the in-memory
  \<open>CleanupExpiredTokens\<close> at instant 10 the code is still stored.
\<close>

theorem MemoryStorage_Cleanup_keeps_expired_code:
  "ac_ExpiresAt code0 < 10 \<and> authCodes memory1 ''code'' = Some code0 \<and>
   authCodes (fst (MemoryStorage_CleanupExpiredTokens 10 memory1)) ''code'' = Some code0"
  by (simp add: MemoryStorage_CleanupExpiredTokens_def memory1_def code0_def)

text \<open>
  What the in-memory \<open>AuthenticateUser\<close> does: the stored user exactly when the user
  exists, has a credential and the comparison accepts the password.
\<close>

lemma MemoryStorage_AuthenticateUser_result:
  "MemoryStorage_AuthenticateUser compare m username password =
     (case users m username of
        None \<Rightarrow> (None, Some ErrUserNotFound)
      | Some user \<Rightarrow>
          (case Password user of
             None \<Rightarrow> (None, Some ErrInvalidCredentials)
           | Some h \<Rightarrow>
               if compare h password = None then (Some user, None)
               else (None, Some ErrInvalidCredentials)))"
  by (auto simp: MemoryStorage_AuthenticateUser_def MemoryStorage_GetUser_def
      NullString_Valid_def NullString_String_def split: option.splits)

text \<open>
  Claim C2 (the code departs from it). With the user \<open>alice\<close> stored and a password that
  does not match her credential, the in-memory backend answers invalid credentials, and
  the relational backend's \<open>AuthenticateUser\<close> returns the user with no error: it never
  compares the password.
\<close>

theorem PostgreSQLStorage_AuthenticateUser_ignores_password:
  "MemoryStorage_AuthenticateUser example_compare memory1 ''alice'' ''wrong''
     = (None, Some ErrInvalidCredentials) \<and>
   snd (PostgreSQLStorage_AuthenticateUser 0 0 healthy healthy postgres0 ''alice'' ''wrong'')
     = (Some alice, None)"
  by (simp add: MemoryStorage_AuthenticateUser_def MemoryStorage_GetUser_def memory1_def
      NewMemoryStorage_def alice_def NullString_Valid_def NullString_String_def
      example_compare_def PostgreSQLStorage_AuthenticateUser_def PostgreSQLStorage_GetUser_def
      postgres0_def cache_Get_def CacheProvider_Get_def MemoryCache_Get_def NewMemoryCache_def
      db_First_def healthy_def empty_Database_def cache_Set_def CacheProvider_Set_def
      MemoryCache_Set_def)

text \<open>
  Claim C8 as stated fails: in a store whose only scope flagged default is
  \<open>read_write\<close> (and whose scope \<open>read\<close> is not flagged), \<open>GetDefaultScope\<close> returns
  \<open>read\<close>, while the scope formed by the flagged scopes is \<open>read_write\<close>.
\<close>

theorem GetDefaultScope_ignores_flags_counterexample:
  "MemoryStorage_GetDefaultScope
      (NewMemoryStorage\<lparr>scopes := scopes_of [scope_read, scope_read_write]\<rparr>)
     = (''read'', None) \<and>
   spec_default_scope [scope_read, scope_read_write] = ''read_write''"
  by (simp add: MemoryStorage_GetDefaultScope_def spec_default_scope_def scope_read_def
      scope_read_write_def)

text \<open>
  Claim C8, amended. For every state of the stored scope set, the in-memory
  \<open>GetDefaultScope\<close> returns the fixed scope \<open>read\<close> with no error; the stored scopes and
  their default flags have no influence on it.
\<close>

theorem GetDefaultScope_constant:
  "MemoryStorage_GetDefaultScope m = (''read'', None) \<and>
   MemoryStorage_GetDefaultScope (m\<lparr>scopes := sc\<rparr>) = MemoryStorage_GetDefaultScope m"
  by (simp add: MemoryStorage_GetDefaultScope_def)

section \<open>The in-memory cache\<close>

text \<open>
  Claim C10. For every key and every destination, \<open>MemoryCache.Get\<close> leaves the
  destination as it was, whatever it reports; and after \<open>Set(key, v, ttl)\<close>, a \<open>Get\<close> of
  that key at an instant not after the entry's expiry reports success and still leaves
  the destination as it was, so the stored value is never handed back.
\<close>

theorem MemoryCache_Get_never_copies:
  "fst (MemoryCache_Get now' (m' :: 'v MemoryCache) key' dest) = dest \<and>
   (now' \<le> Time_Add now ttl \<longrightarrow>
      MemoryCache_Get now' (fst (MemoryCache_Set now (m :: 'v MemoryCache) key v ttl)) key dest
        = (dest, None))"
  by (simp add: MemoryCache_Get_def MemoryCache_Set_def Time_After_def split: option.splits)

theorem MemoryCache_Get_never_copies_witness:
  "(1::int) \<le> Time_Add 0 (5 * Minute) \<and>
   MemoryCache_Get 1 (fst (MemoryCache_Set 0 NewMemoryCache ''client:c1'' client1 (5 * Minute)))
     ''client:c1'' zero_OauthClient = (zero_OauthClient, None)"
proof -
  have h: "(1::int) \<le> Time_Add 0 (5 * Minute)"
    by (simp add: Time_Add_def Minute_def Second_def)
  show ?thesis
    using h MemoryCache_Get_never_copies
      [of 1 "NewMemoryCache :: OauthClient MemoryCache" "''client:c1''" zero_OauthClient
          0 "5 * Minute" NewMemoryCache "''client:c1''" client1]
    by simp
qed

section \<open>The relational backend: lookups, token caching, client cache coherence\<close>

lemma PostgreSQLStorage_GetClient_miss:
  assumes "cache_Get tGet (cfault 0) (cache s) (''client:'' @ k) unmarshal_Client
             zero_OauthClient = None"
  shows "snd (PostgreSQLStorage_GetClient tGet tSet fault cfault s k) =
     (case fault 0 of
        Some e \<Rightarrow> (None, Some (Errorf ''failed to get client'' (Some (DriverError e))))
      | None \<Rightarrow> (case find (\<lambda>c. Key c = k) (oauth_clients (db s)) of
                   None \<Rightarrow> (None, None)
                 | Some c \<Rightarrow> (Some c, None)))"
  using assms
  by (simp add: PostgreSQLStorage_GetClient_def db_First_def IsRecordNotFoundError_def
      split: option.splits)

lemma PostgreSQLStorage_GetUser_miss:
  assumes "cache_Get tGet (cfault 0) (cache s) (''user:'' @ k) unmarshal_User zero_OauthUser
             = None"
  shows "snd (PostgreSQLStorage_GetUser tGet tSet fault cfault s k) =
     (case fault 0 of
        Some e \<Rightarrow> (None, Some (Errorf ''failed to get user'' (Some (DriverError e))))
      | None \<Rightarrow> (case find (\<lambda>u. Username u = k) (oauth_users (db s)) of
                   None \<Rightarrow> (None, None)
                 | Some u \<Rightarrow> (Some u, None)))"
  using assms
  by (simp add: PostgreSQLStorage_GetUser_def db_First_def IsRecordNotFoundError_def
      split: option.splits)

lemma PostgreSQLStorage_GetUserByID_result:
  "PostgreSQLStorage_GetUserByID fault s k =
     (case fault 0 of
        Some e \<Rightarrow> (None, Some (Errorf ''failed to get user by ID'' (Some (DriverError e))))
      | None \<Rightarrow> (case find (\<lambda>u. ID u = k) (oauth_users (db s)) of
                   None \<Rightarrow> (None, None)
                 | Some u \<Rightarrow> (Some u, None)))"
  by (simp add: PostgreSQLStorage_GetUserByID_def db_First_def IsRecordNotFoundError_def
      split: option.splits)

lemma PostgreSQLStorage_GetAccessToken_miss:
  assumes "cache_Get tGet (cfault 0) (cache s) (''access_token:'' @ k) unmarshal_AccessToken
             zero_OauthAccessToken = None"
  shows "snd (PostgreSQLStorage_GetAccessToken tGet tAfter tUntil tSet fault cfault s k) =
     (case fault 0 of
        Some e \<Rightarrow> (None, Some (Errorf ''failed to get access token'' (Some (DriverError e))))
      | None \<Rightarrow> (case find (\<lambda>t. at_Token t = k) (oauth_access_tokens (db s)) of
                   None \<Rightarrow> (None, None)
                 | Some t \<Rightarrow> (Some (Preload (db s) t), None)))"
  using assms
  by (simp add: PostgreSQLStorage_GetAccessToken_def db_First_def IsRecordNotFoundError_def
      Let_def split: option.splits)

lemma MemoryStorage_lookup_absent:
  "(clients m k = None \<longrightarrow> MemoryStorage_GetClient m k = (None, Some ErrClientNotFound)) \<and>
   (users m k = None \<longrightarrow> MemoryStorage_GetUser m k = (None, Some ErrUserNotFound)) \<and>
   (usersByID m k = None \<longrightarrow> MemoryStorage_GetUserByID m k = (None, Some ErrUserNotFound)) \<and>
   (accessTokens m k = None \<longrightarrow>
      MemoryStorage_GetAccessToken now m k = (None, Some ErrTokenNotFound)) \<and>
   (refreshTokens m k = None \<longrightarrow>
      MemoryStorage_GetRefreshToken now m k = (None, Some ErrTokenNotFound)) \<and>
   (authCodes m k = None \<longrightarrow>
      MemoryStorage_GetAuthorizationCode now m k = (None, Some ErrCodeNotFound)) \<and>
   (scopes m k = None \<longrightarrow> MemoryStorage_GetScope m k = (None, Some ErrScopeNotFound))"
  by (simp add: MemoryStorage_GetClient_def MemoryStorage_GetUser_def
      MemoryStorage_GetUserByID_def MemoryStorage_GetAccessToken_def
      MemoryStorage_GetRefreshToken_def MemoryStorage_GetAuthorizationCode_def
      MemoryStorage_GetScope_def)

text \<open>
  Claim C4 as stated fails: with the database answering and no client \<open>missing\<close> stored,
  the relational \<open>GetClient\<close> returns a nil client with a nil error, an empty success.
\<close>

theorem PostgreSQLStorage_GetClient_empty_success_counterexample:
  "snd (PostgreSQLStorage_GetClient 0 0 healthy healthy postgres0 ''missing'') = (None, None)"
  by (simp add: PostgreSQLStorage_GetClient_def postgres0_def cache_Get_def
      CacheProvider_Get_def MemoryCache_Get_def NewMemoryCache_def db_First_def healthy_def
      empty_Database_def client1_def IsRecordNotFoundError_def)

text \<open>
  Claim C4, amended. Every lookup by key that the backends implement, applied to a key
  with no stored record, returns a not-found outcome that differs both from a found record
  and from a backend error. In the in-memory backend (\<open>GetClient\<close>, \<open>GetUser\<close>,
  \<open>GetUserByID\<close>, \<open>GetAccessToken\<close>, \<open>GetRefreshToken\<close>, \<open>GetAuthorizationCode\<close>,
  \<open>GetScope\<close>) it is no record with the dedicated not-found error. In the relational
  backend (\<open>GetClient\<close>, \<open>GetUser\<close>, \<open>GetUserByID\<close>, \<open>GetAccessToken\<close>, when the cache
  does not answer for the key) it is no record with no error, whereas a backend failure is
  no record with the wrapped driver error and a stored record is that record with no error.
\<close>

theorem lookup_not_found_outcomes:
  "(clients m k = None \<longrightarrow> MemoryStorage_GetClient m k = (None, Some ErrClientNotFound)) \<and>
   (users m k = None \<longrightarrow> MemoryStorage_GetUser m k = (None, Some ErrUserNotFound)) \<and>
   (usersByID m k = None \<longrightarrow> MemoryStorage_GetUserByID m k = (None, Some ErrUserNotFound)) \<and>
   (accessTokens m k = None \<longrightarrow>
      MemoryStorage_GetAccessToken now m k = (None, Some ErrTokenNotFound)) \<and>
   (refreshTokens m k = None \<longrightarrow>
      MemoryStorage_GetRefreshToken now m k = (None, Some ErrTokenNotFound)) \<and>
   (authCodes m k = None \<longrightarrow>
      MemoryStorage_GetAuthorizationCode now m k = (None, Some ErrCodeNotFound)) \<and>
   (scopes m k = None \<longrightarrow> MemoryStorage_GetScope m k = (None, Some ErrScopeNotFound)) \<and>
   (cache_Get now (cfault 0) (cache s) (''client:'' @ k) unmarshal_Client zero_OauthClient
      = None \<longrightarrow>
      snd (PostgreSQLStorage_GetClient now tSet fault cfault s k) =
        (case fault 0 of
           Some e \<Rightarrow> (None, Some (Errorf ''failed to get client'' (Some (DriverError e))))
         | None \<Rightarrow> (case find (\<lambda>c. Key c = k) (oauth_clients (db s)) of
                      None \<Rightarrow> (None, None)
                    | Some c \<Rightarrow> (Some c, None)))) \<and>
   (cache_Get now (cfault 0) (cache s) (''user:'' @ k) unmarshal_User zero_OauthUser
      = None \<longrightarrow>
      snd (PostgreSQLStorage_GetUser now tSet fault cfault s k) =
        (case fault 0 of
           Some e \<Rightarrow> (None, Some (Errorf ''failed to get user'' (Some (DriverError e))))
         | None \<Rightarrow> (case find (\<lambda>u. Username u = k) (oauth_users (db s)) of
                      None \<Rightarrow> (None, None)
                    | Some u \<Rightarrow> (Some u, None)))) \<and>
   PostgreSQLStorage_GetUserByID fault s k =
     (case fault 0 of
        Some e \<Rightarrow> (None, Some (Errorf ''failed to get user by ID'' (Some (DriverError e))))
      | None \<Rightarrow> (case find (\<lambda>u. ID u = k) (oauth_users (db s)) of
                   None \<Rightarrow> (None, None)
                 | Some u \<Rightarrow> (Some u, None))) \<and>
   (cache_Get now (cfault 0) (cache s) (''access_token:'' @ k) unmarshal_AccessToken
        zero_OauthAccessToken = None \<longrightarrow>
      snd (PostgreSQLStorage_GetAccessToken now tAfter tUntil tSet fault cfault s k) =
        (case fault 0 of
           Some e \<Rightarrow>
             (None, Some (Errorf ''failed to get access token'' (Some (DriverError e))))
         | None \<Rightarrow> (case find (\<lambda>t. at_Token t = k) (oauth_access_tokens (db s)) of
                      None \<Rightarrow> (None, None)
                    | Some t \<Rightarrow> (Some (Preload (db s) t), None))))"
  using MemoryStorage_lookup_absent [of m k now]
    PostgreSQLStorage_GetClient_miss [of now cfault s k tSet fault]
    PostgreSQLStorage_GetUser_miss [of now cfault s k tSet fault]
    PostgreSQLStorage_GetUserByID_result [of fault s k]
    PostgreSQLStorage_GetAccessToken_miss [of now cfault s k tAfter tUntil tSet fault]
  by blast

theorem lookup_not_found_outcomes_witness:
  "clients memory1 ''missing'' = None \<and>
   MemoryStorage_GetClient memory1 ''missing'' = (None, Some ErrClientNotFound) \<and>
   cache_Get 0 (healthy 0) (cache postgres0) (''client:'' @ ''missing'') unmarshal_Client
     zero_OauthClient = None \<and>
   snd (PostgreSQLStorage_GetClient 0 0 healthy healthy postgres0 ''missing'') = (None, None) \<and>
   snd (PostgreSQLStorage_GetClient 0 0 (\<lambda>n. Some ''connection refused'') healthy postgres0
          ''missing'') =
     (None, Some (Errorf ''failed to get client'' (Some (DriverError ''connection refused'')))) \<and>
   snd (PostgreSQLStorage_GetClient 0 0 healthy healthy postgres0 ''c1'') = (Some client1, None)"
proof -
  have a: "clients memory1 ''missing'' = None"
    by (simp add: memory1_def NewMemoryStorage_def)
  have b: "cache_Get 0 (healthy 0) (cache postgres0) (''client:'' @ k) unmarshal_Client
             zero_OauthClient = None" for k
    by (simp add: postgres0_def cache_Get_def CacheProvider_Get_def MemoryCache_Get_def
        NewMemoryCache_def)
  have c: "find (\<lambda>c. Key c = ''missing'') (oauth_clients (db postgres0)) = None"
    "find (\<lambda>c. Key c = ''c1'') (oauth_clients (db postgres0)) = Some client1"
    by (simp_all add: postgres0_def empty_Database_def client1_def)
  show ?thesis
    using a b c
      lookup_not_found_outcomes [of memory1 "''missing''" 0 healthy postgres0 0 healthy]
      lookup_not_found_outcomes
        [of memory1 "''missing''" 0 healthy postgres0 0 "\<lambda>n. Some ''connection refused''"]
      lookup_not_found_outcomes [of memory1 "''c1''" 0 healthy postgres0 0 healthy]
    by (simp add: healthy_def)
qed



















end
